theory Spec2Isabelle
  imports Main
begin

section \<open>Mouse button state tracking: \<^verbatim>\<open>MouseState\<close> of package \<^verbatim>\<open>window\<close>\<close>

subsection \<open>Data\<close>

text \<open>
  Modelled from the spec: the declaration of \<^verbatim>\<open>MouseButton\<close> is not part of the sources.
  The sources name three identities (\<^verbatim>\<open>MouseButtonLeft\<close>, \<^verbatim>\<open>MouseButtonRight\<close>,
  \<^verbatim>\<open>MouseButtonMiddle\<close>); the spec speaks of a button identity from an enumerable set, of
  which these three are tracked. Every other identity is \<open>MouseButtonOther n\<close>.
\<close>

datatype MouseButton =
  MouseButtonLeft | MouseButtonRight | MouseButtonMiddle | MouseButtonOther nat

text \<open>
  \<^verbatim>\<open>time.Time\<close> and \<^verbatim>\<open>time.Duration\<close> of the Go standard library: a reading of the clock
  and a span, both counted in nanoseconds. \<^verbatim>\<open>t.Add(d)\<close> is the sum and \<^verbatim>\<open>t.Before(u)\<close> the
  strict order. The integers are unbounded here: the 64-bit range of the library (some
  292 years) is not modelled.
\<close>

type_synonym Time = int
type_synonym Duration = int

definition Add :: "Time \<Rightarrow> Duration \<Rightarrow> Time" where
  "Add t d = t + d"

definition Before :: "Time \<Rightarrow> Time \<Rightarrow> bool" where
  "Before t u \<longleftrightarrow> t < u"

definition Millisecond :: Duration where
  "Millisecond = 1000000"

definition DefaultDoubleClickDuration :: int where
  "DefaultDoubleClickDuration = 300"

text \<open>Addresses of heap objects and of variables whose address is taken.\<close>

type_synonym addr = nat

text \<open>
  \<^verbatim>\<open>mouseButtonState\<close>. The field \<^verbatim>\<open>clickCount\<close> is a Go \<^verbatim>\<open>int\<close>; the code compares it
  with constants, assigns constants to it and multiplies a positive value by \<open>-1\<close>, none of
  which can overflow, so it is an unbounded integer here.
\<close>

record mouseButtonState =
  clickCount :: int
  lastClick :: Time

text \<open>
  \<^verbatim>\<open>MouseState\<close>. The field \<^verbatim>\<open>win\<close> refers to the window the tracker is subscribed to. The
  Go map holds one pointer per key, each to a record of its own that no other key shares,
  and the code only ever writes through \<^verbatim>\<open>ms.states[b]\<close>: the map from buttons to records
  is that map; a key without an entry reads as the nil pointer.
\<close>

record MouseState =
  win :: addr
  lastButton :: MouseButton
  DoubleClickDuration :: Duration
  states :: "MouseButton \<rightharpoonup> mouseButtonState"

text \<open>
  Modelled from the spec: the declaration of \<^verbatim>\<open>MouseEvent\<close> is not part of the sources; the
  tracker reads only its field \<^verbatim>\<open>Button\<close>.
\<close>

record MouseEvent =
  Button :: MouseButton

text \<open>
  The handlers receive \<^verbatim>\<open>ev interface{}\<close> and assert that it holds a
  \<^verbatim>\<open>*MouseEvent\<close>. A payload is a pointer to a mouse event (\<open>None\<close> the nil pointer of that type) or a value of any other
  dynamic type.
\<close>

datatype payload = MouseEventPtr "MouseEvent option" | OtherPayload

text \<open>The run-time panics of the code: a nil dereference and a failed type assertion.\<close>

datatype panic = NilDereference | TypeAssertion

subsection \<open>Queries\<close>

text \<open>
  \<^verbatim>\<open>func (s *mouseButtonState) doubleClicked() bool {
      return s.clickCount == 2 || s.clickCount == -2 }\<close>
\<close>

definition doubleClicked :: "mouseButtonState \<Rightarrow> bool" where
  "doubleClicked s \<longleftrightarrow> clickCount s = 2 \<or> clickCount s = - 2"

text \<open>
  \<^verbatim>\<open>func (ms *MouseState) Pressed(b MouseButton) bool {
      return ms.states[b].clickCount > 0 }\<close>
  Reading a field through the nil pointer of a missing key panics.
\<close>

definition Pressed :: "MouseState \<Rightarrow> MouseButton \<Rightarrow> panic + bool" where
  "Pressed ms b =
     (case states ms b of
        None \<Rightarrow> Inl NilDereference
      | Some s \<Rightarrow> Inr (clickCount s > 0))"

definition LeftPressed :: "MouseState \<Rightarrow> panic + bool" where
  "LeftPressed ms =
     (case states ms MouseButtonLeft of
        None \<Rightarrow> Inl NilDereference
      | Some s \<Rightarrow> Inr (clickCount s > 0))"

definition RightPressed :: "MouseState \<Rightarrow> panic + bool" where
  "RightPressed ms =
     (case states ms MouseButtonRight of
        None \<Rightarrow> Inl NilDereference
      | Some s \<Rightarrow> Inr (clickCount s > 0))"

definition MiddlePressed :: "MouseState \<Rightarrow> panic + bool" where
  "MiddlePressed ms =
     (case states ms MouseButtonMiddle of
        None \<Rightarrow> Inl NilDereference
      | Some s \<Rightarrow> Inr (clickCount s > 0))"

text \<open>
  \<^verbatim>\<open>func (ms *MouseState) LeftDoubleClicked() bool {
      return ms.lastButton == MouseButtonLeft && ms.states[MouseButtonLeft].doubleClicked() }\<close>
  and the same for the right and the middle button. \<^verbatim>\<open>&&\<close> does not evaluate its right
  operand when the left one is false.
\<close>

definition LeftDoubleClicked :: "MouseState \<Rightarrow> panic + bool" where
  "LeftDoubleClicked ms =
     (if lastButton ms = MouseButtonLeft
      then (case states ms MouseButtonLeft of
              None \<Rightarrow> Inl NilDereference
            | Some s \<Rightarrow> Inr (doubleClicked s))
      else Inr False)"

definition RightDoubleClicked :: "MouseState \<Rightarrow> panic + bool" where
  "RightDoubleClicked ms =
     (if lastButton ms = MouseButtonRight
      then (case states ms MouseButtonRight of
              None \<Rightarrow> Inl NilDereference
            | Some s \<Rightarrow> Inr (doubleClicked s))
      else Inr False)"

definition MiddleDoubleClicked :: "MouseState \<Rightarrow> panic + bool" where
  "MiddleDoubleClicked ms =
     (if lastButton ms = MouseButtonMiddle
      then (case states ms MouseButtonMiddle of
              None \<Rightarrow> Inl NilDereference
            | Some s \<Rightarrow> Inr (doubleClicked s))
      else Inr False)"

text \<open>
  The three accessors are one body at three button identities. \<open>DoubleClicked ms b\<close> is
  that body at the identity \<open>b\<close>: the query the spec calls \<^verbatim>\<open>DoubleClicked(buttonID)\<close>.
\<close>

definition DoubleClicked :: "MouseState \<Rightarrow> MouseButton \<Rightarrow> panic + bool" where
  "DoubleClicked ms b =
     (if lastButton ms = b
      then (case states ms b of
              None \<Rightarrow> Inl NilDereference
            | Some s \<Rightarrow> Inr (doubleClicked s))
      else Inr False)"

subsection \<open>Event handlers\<close>

text \<open>
  A handler mutates the tracker and returns nothing, or panics part-way. The model returns
  the outcome together with the tracker as the handler leaves it: at a panic, with the
  writes made before the failing statement.
\<close>

text \<open>
  \<open>setState ms b s\<close> is the tracker after writes through \<^verbatim>\<open>ms.states[b]\<close> that leave the
  record \<open>s\<close> there.
\<close>

definition setState :: "MouseState \<Rightarrow> MouseButton \<Rightarrow> mouseButtonState \<Rightarrow> MouseState" where
  "setState ms b s = ms\<lparr>states := (states ms)(b \<mapsto> s)\<rparr>"

text \<open>
  \<^verbatim>\<open>func (ms *MouseState) onMouseUp(evname string, ev interface{}) {
      mev := ev.( *MouseEvent )
      if ms.states[mev.Button].clickCount > 0 {
          ms.states[mev.Button].clickCount *= -1
      }
  }\<close>
\<close>

definition onMouseUp :: "MouseState \<Rightarrow> string \<Rightarrow> payload \<Rightarrow> (panic + unit) \<times> MouseState" where
  "onMouseUp ms evname ev =
     (case ev of
        OtherPayload \<Rightarrow> (Inl TypeAssertion, ms)
      | MouseEventPtr None \<Rightarrow> (Inl NilDereference, ms)
      | MouseEventPtr (Some mev) \<Rightarrow>
          (case states ms (Button mev) of
             None \<Rightarrow> (Inl NilDereference, ms)
           | Some s \<Rightarrow>
               if clickCount s > 0
               then (Inr (), setState ms (Button mev) (s\<lparr>clickCount := clickCount s * (- 1)\<rparr>))
               else (Inr (), ms)))"

text \<open>
  \<^verbatim>\<open>func (ms *MouseState) onMouseDown(evname string, ev interface{}) {
      mev := ev.( *MouseEvent )
      ms.lastButton = mev.Button
      now := time.Now()
      if ms.states[mev.Button].clickCount == 0 {
          ms.states[mev.Button].clickCount = 1
          ms.states[mev.Button].lastClick = now
          return
      }
      if ms.states[mev.Button].clickCount == -1 {
          if ms.states[mev.Button].lastClick.Add(ms.DoubleClickDuration).Before(now) {
              ms.states[mev.Button].clickCount = 1
              ms.states[mev.Button].lastClick = now
              return
          }
          ms.states[mev.Button].clickCount = 2
          return
      }
      ms.states[mev.Button].clickCount = 1
      ms.states[mev.Button].lastClick = now
  }\<close>
  The reading of the clock, \<^verbatim>\<open>time.Now()\<close>, is the parameter \<open>now\<close>.
\<close>

definition onMouseDown ::
  "MouseState \<Rightarrow> string \<Rightarrow> payload \<Rightarrow> Time \<Rightarrow> (panic + unit) \<times> MouseState" where
  "onMouseDown ms evname ev now =
     (case ev of
        OtherPayload \<Rightarrow> (Inl TypeAssertion, ms)
      | MouseEventPtr None \<Rightarrow> (Inl NilDereference, ms)
      | MouseEventPtr (Some mev) \<Rightarrow>
          (let ms1 = ms\<lparr>lastButton := Button mev\<rparr> in
           case states ms1 (Button mev) of
             None \<Rightarrow> (Inl NilDereference, ms1)
           | Some s \<Rightarrow>
               if clickCount s = 0
               then (Inr (), setState ms1 (Button mev) (s\<lparr>clickCount := 1, lastClick := now\<rparr>))
               else if clickCount s = - 1
               then (if Before (Add (lastClick s) (DoubleClickDuration ms1)) now
                     then (Inr (), setState ms1 (Button mev)
                                     (s\<lparr>clickCount := 1, lastClick := now\<rparr>))
                     else (Inr (), setState ms1 (Button mev) (s\<lparr>clickCount := 2\<rparr>)))
               else (Inr (), setState ms1 (Button mev)
                               (s\<lparr>clickCount := 1, lastClick := now\<rparr>))))"

text \<open>The payload of a mouse event for the button \<open>b\<close>.\<close>

definition mouseEvent :: "MouseButton \<Rightarrow> payload" where
  "mouseEvent b = MouseEventPtr (Some \<lparr>Button = b\<rparr>)"

subsection \<open>Construction and disposal\<close>

text \<open>
  The tracker that \<^verbatim>\<open>NewMouseState\<close> builds before it subscribes:
  \<^verbatim>\<open>ms := new(MouseState)
  ms.win = win
  ms.DoubleClickDuration = DefaultDoubleClickDuration * time.Millisecond
  ms.states = map[MouseButton]*mouseButtonState{
      MouseButtonLeft:   {clickCount: 0, lastClick: time.Now()},
      MouseButtonRight:  {clickCount: 0, lastClick: time.Now()},
      MouseButtonMiddle: {clickCount: 0, lastClick: time.Now()},
  }\<close>
  The three readings of the clock are the parameters \<open>tleft\<close>, \<open>tright\<close> and \<open>tmiddle\<close>.
  \<^verbatim>\<open>new\<close> leaves \<^verbatim>\<open>lastButton\<close> at the zero value of \<^verbatim>\<open>MouseButton\<close>; which identity
  that is is decided by the declaration missing from the sources, so it is the parameter
  \<open>b0\<close>.
\<close>

definition freshMouseState ::
  "addr \<Rightarrow> MouseButton \<Rightarrow> Time \<Rightarrow> Time \<Rightarrow> Time \<Rightarrow> MouseState" where
  "freshMouseState winp b0 tleft tright tmiddle =
     \<lparr>win = winp,
      lastButton = b0,
      DoubleClickDuration = DefaultDoubleClickDuration * Millisecond,
      states = [MouseButtonLeft \<mapsto> \<lparr>clickCount = 0, lastClick = tleft\<rparr>,
                MouseButtonRight \<mapsto> \<lparr>clickCount = 0, lastClick = tright\<rparr>,
                MouseButtonMiddle \<mapsto> \<lparr>clickCount = 0, lastClick = tmiddle\<rparr>]\<rparr>"

text \<open>
  Modelled from the spec: the event source (\<^verbatim>\<open>IWindow\<close>, with \<^verbatim>\<open>SubscribeID\<close> and
  \<^verbatim>\<open>UnsubscribeID\<close>) and the event names \<^verbatim>\<open>OnMouseUp\<close> and \<^verbatim>\<open>OnMouseDown\<close> are not part
  of the sources. By the spec, subscribing registers a handler for an event kind under an
  identity token, and unsubscribing removes what was registered for that kind under that
  token. The registry is the list of registrations; a token is compared by equality. The
  tokens the tracker passes are pointers to variables, so a token is an address. A handler
  is a method value: \<^verbatim>\<open>ms.onMouseUp\<close> or \<^verbatim>\<open>ms.onMouseDown\<close>, bound to the tracker at an
  address.
\<close>

text \<open>
  Modelled from the spec: the names of the two event kinds, whose declarations are missing
  from the sources. Any two different strings do.
\<close>

definition OnMouseUp :: string where
  "OnMouseUp = ''OnMouseUp''"

definition OnMouseDown :: string where
  "OnMouseDown = ''OnMouseDown''"

datatype handler = MethodOnMouseUp addr | MethodOnMouseDown addr

type_synonym Window = "(string \<times> addr \<times> handler) list"

text \<open>
  Modelled from the spec: \<^verbatim>\<open>SubscribeID\<close> of the event source, missing from the sources.
  It registers the handler for the event name under the token.
\<close>

definition SubscribeID :: "Window \<Rightarrow> string \<Rightarrow> addr \<Rightarrow> handler \<Rightarrow> Window" where
  "SubscribeID subs evname ident h = subs @ [(evname, ident, h)]"

text \<open>
  Modelled from the spec: \<^verbatim>\<open>UnsubscribeID\<close> of the event source, missing from the sources.
  It removes what is registered for the event name under the token, and nothing else.
\<close>

definition UnsubscribeID :: "Window \<Rightarrow> string \<Rightarrow> addr \<Rightarrow> Window" where
  "UnsubscribeID subs evname ident =
     filter (\<lambda>(n, i, h). \<not> (n = evname \<and> i = ident)) subs"

text \<open>
  Modelled from the spec: delivery by the event source, missing from the sources. These are
  the handlers it calls when it delivers an event of the given name.
\<close>

definition handlersFor :: "Window \<Rightarrow> string \<Rightarrow> handler list" where
  "handlersFor subs evname = map (\<lambda>(n, i, h). h) (filter (\<lambda>(n, i, h). n = evname) subs)"

text \<open>
  The store. Both \<^verbatim>\<open>NewMouseState\<close> and \<^verbatim>\<open>Dispose\<close> pass \<^verbatim>\<open>&ms\<close> as the identity token:
  the address of the variable \<^verbatim>\<open>ms\<close> of that very call, not the pointer it holds. So the
  store has the windows, the trackers (what \<^verbatim>\<open>new(MouseState)\<close> allocates) and the pointer
  variables whose address is taken, each at an address of its own; \<open>nextAddr\<close> is the next
  unused address. Two variables that are alive at the same time have different addresses.
\<close>

record store =
  nextAddr :: addr
  windows :: "addr \<rightharpoonup> Window"
  trackers :: "addr \<rightharpoonup> MouseState"
  ptrVars :: "addr \<rightharpoonup> addr"

definition alloc :: "store \<Rightarrow> addr \<times> store" where
  "alloc h = (nextAddr h, h\<lparr>nextAddr := Suc (nextAddr h)\<rparr>)"

text \<open>
  \<^verbatim>\<open>func NewMouseState(win IWindow) *MouseState {
      ms := new(MouseState)
      ... (the fields, as above)
      ms.win.SubscribeID(OnMouseUp, &ms, ms.onMouseUp)
      ms.win.SubscribeID(OnMouseDown, &ms, ms.onMouseDown)
      return ms
  }\<close>
  \<open>p\<close> is the new tracker and \<open>v\<close> the local variable \<^verbatim>\<open>ms\<close> that holds \<open>p\<close>; the token
  is \<open>v\<close>. The variable stays alive after the return: the registry holds its address.
  Calling a method of a window that is not there panics.
\<close>

definition NewMouseState ::
  "store \<Rightarrow> addr \<Rightarrow> MouseButton \<Rightarrow> Time \<Rightarrow> Time \<Rightarrow> Time \<Rightarrow> (panic + addr) \<times> store" where
  "NewMouseState h winp b0 tleft tright tmiddle =
     (let (p, h1) = alloc h;
          (v, h2) = alloc h1;
          h3 = h2\<lparr>trackers := (trackers h2)(p \<mapsto> freshMouseState winp b0 tleft tright tmiddle),
                  ptrVars := (ptrVars h2)(v \<mapsto> p)\<rparr>
      in case windows h3 winp of
           None \<Rightarrow> (Inl NilDereference, h3)
         | Some subs \<Rightarrow>
             (Inr p,
              h3\<lparr>windows := (windows h3)(winp \<mapsto>
                    SubscribeID (SubscribeID subs OnMouseUp v (MethodOnMouseUp p))
                      OnMouseDown v (MethodOnMouseDown p))\<rparr>))"

text \<open>
  \<^verbatim>\<open>func (ms *MouseState) Dispose() {
      ms.win.UnsubscribeID(OnMouseUp, &ms)
      ms.win.UnsubscribeID(OnMouseDown, &ms)
  }\<close>
  \<open>p\<close> is the receiver and \<open>v\<close> the receiver variable \<^verbatim>\<open>ms\<close> of this call, which holds
  \<open>p\<close>; the token is \<open>v\<close>.
\<close>

definition Dispose :: "store \<Rightarrow> addr \<Rightarrow> (panic + unit) \<times> store" where
  "Dispose h p =
     (let (v, h1) = alloc h;
          h2 = h1\<lparr>ptrVars := (ptrVars h1)(v \<mapsto> p)\<rparr>
      in case trackers h2 p of
           None \<Rightarrow> (Inl NilDereference, h2)
         | Some ms \<Rightarrow>
             (case windows h2 (win ms) of
                None \<Rightarrow> (Inl NilDereference, h2)
              | Some subs \<Rightarrow>
                  (Inr (),
                   h2\<lparr>windows := (windows h2)(win ms \<mapsto>
                         UnsubscribeID (UnsubscribeID subs OnMouseUp v) OnMouseDown v)\<rparr>)))"

text \<open>A store with one window, at address 0, that has no subscriber yet.\<close>

definition emptyWindowStore :: store where
  "emptyWindowStore =
     \<lparr>nextAddr = 1, windows = [0 \<mapsto> []], trackers = Map.empty, ptrVars = Map.empty\<rparr>"

subsection \<open>Sequences of events\<close>

text \<open>
  The keys of the map literal of \<^verbatim>\<open>NewMouseState\<close>: the tracked buttons.
\<close>

definition tracked :: "MouseButton \<Rightarrow> bool" where
  "tracked b \<longleftrightarrow> b = MouseButtonLeft \<or> b = MouseButtonRight \<or> b = MouseButtonMiddle"

text \<open>
  One delivery of the event source: a call of \<^verbatim>\<open>onMouseDown\<close> with the reading of the clock
  it takes, or a call of \<^verbatim>\<open>onMouseUp\<close>. A run applies the deliveries in order and stops at
  the first panic, with the tracker as the panicking handler leaves it.
\<close>

datatype event = Down string payload Time | Up string payload

fun step :: "MouseState \<Rightarrow> event \<Rightarrow> (panic + unit) \<times> MouseState" where
  "step ms (Down evname ev now) = onMouseDown ms evname ev now"
| "step ms (Up evname ev) = onMouseUp ms evname ev"

fun run :: "MouseState \<Rightarrow> event list \<Rightarrow> (panic + unit) \<times> MouseState" where
  "run ms [] = (Inr (), ms)"
| "run ms (e # es) =
     (case step ms e of
        (Inr u, ms') \<Rightarrow> run ms' es
      | (Inl p, ms') \<Rightarrow> (Inl p, ms'))"

text \<open>The phases of the spec's state machine.\<close>

definition phaseOk :: "int \<Rightarrow> bool" where
  "phaseOk c \<longleftrightarrow> c = - 2 \<or> c = - 1 \<or> c = 0 \<or> c = 1 \<or> c = 2"

text \<open>
  The invariant of a run: exactly the tracked buttons have a record, and every record holds
  a phase of the state machine.
\<close>

definition trackerInv :: "MouseState \<Rightarrow> bool" where
  "trackerInv ms \<longleftrightarrow>
     (\<forall>b. tracked b \<longleftrightarrow> states ms b \<noteq> None) \<and>
     (\<forall>b s. states ms b = Some s \<longrightarrow> phaseOk (clickCount s))"

text \<open>
  An example tracker: the fresh one with the left button put at a given phase and time of
  the last click.
\<close>

definition leftAt :: "int \<Rightarrow> Time \<Rightarrow> MouseState" where
  "leftAt c t = setState (freshMouseState 0 MouseButtonLeft 0 0 0) MouseButtonLeft
                  \<lparr>clickCount = c, lastClick = t\<rparr>"

section \<open>Basic facts\<close>

text \<open>The fields of a fresh tracker.\<close>

lemma fresh_states:
  "states (freshMouseState winp b0 tleft tright tmiddle) MouseButtonLeft
     = Some \<lparr>clickCount = 0, lastClick = tleft\<rparr>"
  "states (freshMouseState winp b0 tleft tright tmiddle) MouseButtonRight
     = Some \<lparr>clickCount = 0, lastClick = tright\<rparr>"
  "states (freshMouseState winp b0 tleft tright tmiddle) MouseButtonMiddle
     = Some \<lparr>clickCount = 0, lastClick = tmiddle\<rparr>"
  "states (freshMouseState winp b0 tleft tright tmiddle) (MouseButtonOther n) = None"
  by (simp_all add: freshMouseState_def)

lemma fresh_fields:
  "win (freshMouseState winp b0 tleft tright tmiddle) = winp"
  "lastButton (freshMouseState winp b0 tleft tright tmiddle) = b0"
  "DoubleClickDuration (freshMouseState winp b0 tleft tright tmiddle) = 300000000"
  by (simp_all add: freshMouseState_def DefaultDoubleClickDuration_def Millisecond_def)

text \<open>What each handler does at a button that has a record, and at one that has none.\<close>

lemma onMouseDown_Some:
  "states ms b = Some s \<Longrightarrow>
   onMouseDown ms evname (mouseEvent b) now =
     (Inr (), setState (ms\<lparr>lastButton := b\<rparr>) b
        (if clickCount s = - 1 \<and> \<not> lastClick s + DoubleClickDuration ms < now
         then s\<lparr>clickCount := 2\<rparr> else s\<lparr>clickCount := 1, lastClick := now\<rparr>))"
  by (simp add: onMouseDown_def mouseEvent_def Let_def Before_def Add_def)

lemma onMouseDown_None:
  "states ms b = None \<Longrightarrow>
   onMouseDown ms evname (mouseEvent b) now = (Inl NilDereference, ms\<lparr>lastButton := b\<rparr>)"
  by (simp add: onMouseDown_def mouseEvent_def Let_def)

lemma onMouseUp_Some:
  "states ms b = Some s \<Longrightarrow>
   onMouseUp ms evname (mouseEvent b) =
     (Inr (), if 0 < clickCount s then setState ms b (s\<lparr>clickCount := - clickCount s\<rparr>) else ms)"
  by (simp add: onMouseUp_def mouseEvent_def)

lemma onMouseUp_None:
  "states ms b = None \<Longrightarrow> onMouseUp ms evname (mouseEvent b) = (Inl NilDereference, ms)"
  by (simp add: onMouseUp_def mouseEvent_def)

text \<open>The three kinds of payload.\<close>

lemma payload_cases:
  obtains "ev = OtherPayload" | "ev = MouseEventPtr None" | b where "ev = mouseEvent b"
proof (cases ev)
  case (MouseEventPtr x)
  then show ?thesis
  proof (cases x)
    case None
    with MouseEventPtr that show ?thesis by simp
  next
    case (Some mev)
    have "mev = \<lparr>Button = Button mev\<rparr>" by simp
    with MouseEventPtr Some that(3)[of "Button mev"] show ?thesis
      by (simp add: mouseEvent_def)
  qed
next
  case OtherPayload
  with that show ?thesis by simp
qed

lemma onMouseDown_bad [simp]:
  "onMouseDown ms evname OtherPayload now = (Inl TypeAssertion, ms)"
  "onMouseDown ms evname (MouseEventPtr None) now = (Inl NilDereference, ms)"
  by (simp_all add: onMouseDown_def)

lemma onMouseUp_bad [simp]:
  "onMouseUp ms evname OtherPayload = (Inl TypeAssertion, ms)"
  "onMouseUp ms evname (MouseEventPtr None) = (Inl NilDereference, ms)"
  by (simp_all add: onMouseUp_def)

text \<open>The invariant holds of a fresh tracker and every handler keeps it.\<close>

lemma trackerInv_fresh: "trackerInv (freshMouseState winp b0 tleft tright tmiddle)"
proof -
  have "tracked b \<longleftrightarrow> states (freshMouseState winp b0 tleft tright tmiddle) b \<noteq> None" for b
    by (cases b) (simp_all add: fresh_states tracked_def)
  moreover have "phaseOk (clickCount s)"
    if "states (freshMouseState winp b0 tleft tright tmiddle) b = Some s" for b s
    using that by (cases b) (auto simp: fresh_states phaseOk_def)
  ultimately show ?thesis unfolding trackerInv_def by blast
qed

lemma trackerInv_setState:
  assumes "trackerInv ms" and "states ms b = Some s" and "phaseOk (clickCount s')"
  shows "trackerInv (setState ms b s')"
  using assms unfolding trackerInv_def setState_def by auto

lemma trackerInv_lastButton: "trackerInv (ms\<lparr>lastButton := b\<rparr>) = trackerInv ms"
  by (simp add: trackerInv_def)

lemma trackerInv_onMouseDown:
  assumes "trackerInv ms"
  shows "trackerInv (snd (onMouseDown ms evname ev now))"
proof (cases ev rule: payload_cases)
  case (3 b)
  show ?thesis
  proof (cases "states ms b")
    case None
    with 3 assms show ?thesis by (simp add: onMouseDown_None trackerInv_lastButton)
  next
    case (Some s)
    have "trackerInv (setState (ms\<lparr>lastButton := b\<rparr>) b s')" if "phaseOk (clickCount s')" for s'
      using assms Some that by (intro trackerInv_setState[where s = s]) (simp_all add: trackerInv_lastButton)
    with 3 Some show ?thesis
      by (simp add: onMouseDown_Some phaseOk_def)
  qed
qed (use assms in simp_all)

lemma trackerInv_onMouseUp:
  assumes "trackerInv ms"
  shows "trackerInv (snd (onMouseUp ms evname ev))"
proof (cases ev rule: payload_cases)
  case (3 b)
  show ?thesis
  proof (cases "states ms b")
    case None
    with 3 assms show ?thesis by (simp add: onMouseUp_None)
  next
    case (Some s)
    with assms have "phaseOk (clickCount s)" by (simp add: trackerInv_def)
    then have "phaseOk (- clickCount s)" by (auto simp: phaseOk_def)
    then have "trackerInv (setState ms b (s\<lparr>clickCount := - clickCount s\<rparr>))"
      using assms Some by (intro trackerInv_setState[where s = s]) simp_all
    with 3 Some assms show ?thesis
      by (simp add: onMouseUp_Some)
  qed
qed (use assms in simp_all)

lemma trackerInv_step: "trackerInv ms \<Longrightarrow> trackerInv (snd (step ms e))"
  by (cases e) (simp_all add: trackerInv_onMouseDown trackerInv_onMouseUp)

lemma trackerInv_run: "trackerInv ms \<Longrightarrow> trackerInv (snd (run ms es))"
proof (induction es arbitrary: ms)
  case Nil
  then show ?case by simp
next
  case (Cons e es)
  from Cons.prems have i: "trackerInv (snd (step ms e))" by (rule trackerInv_step)
  obtain r ms' where st: "step ms e = (r, ms')" by (cases "step ms e")
  with i have i': "trackerInv ms'" by simp
  show ?case
  proof (cases r)
    case (Inl p)
    with st i' show ?thesis by simp
  next
    case (Inr u)
    with st Cons.IH[OF i'] show ?thesis by simp
  qed
qed

lemma trackerInv_tracked:
  "trackerInv ms \<Longrightarrow> tracked b \<Longrightarrow> \<exists>s. states ms b = Some s \<and> phaseOk (clickCount s)"
  by (auto simp: trackerInv_def)

lemma trackerInv_untracked: "trackerInv ms \<Longrightarrow> \<not> tracked b \<Longrightarrow> states ms b = None"
  by (auto simp: trackerInv_def)

text \<open>The accessors of the code are the queries at their buttons.\<close>

lemma accessors_DoubleClicked:
  "LeftDoubleClicked ms = DoubleClicked ms MouseButtonLeft"
  "RightDoubleClicked ms = DoubleClicked ms MouseButtonRight"
  "MiddleDoubleClicked ms = DoubleClicked ms MouseButtonMiddle"
  by (simp_all add: LeftDoubleClicked_def RightDoubleClicked_def MiddleDoubleClicked_def
      DoubleClicked_def)

lemma accessors_Pressed:
  "LeftPressed ms = Pressed ms MouseButtonLeft"
  "RightPressed ms = Pressed ms MouseButtonRight"
  "MiddlePressed ms = Pressed ms MouseButtonMiddle"
  by (simp_all add: LeftPressed_def RightPressed_def MiddlePressed_def Pressed_def)

text \<open>The example tracker, and a run unfolded at its first event.\<close>

lemma leftAt_simps:
  "states (leftAt c t) MouseButtonLeft = Some \<lparr>clickCount = c, lastClick = t\<rparr>"
  "DoubleClickDuration (leftAt c t) = 300000000"
  "lastButton (leftAt c t) = MouseButtonLeft"
  by (simp_all add: leftAt_def setState_def fresh_fields)

lemma run_simps2:
  "run ms (Down evname ev now # es) =
     (case onMouseDown ms evname ev now of
        (Inr u, ms') \<Rightarrow> run ms' es
      | (Inl p, ms') \<Rightarrow> (Inl p, ms'))"
  "run ms (Up evname ev # es) =
     (case onMouseUp ms evname ev of
        (Inr u, ms') \<Rightarrow> run ms' es
      | (Inl p, ms') \<Rightarrow> (Inl p, ms'))"
  by simp_all

text \<open>
  Construction in a store that has the window: the tracker is at the next address, the
  variable that holds it at the one after, and both handlers are registered under the
  address of the variable.
\<close>

lemma NewMouseState_window:
  assumes "windows h winp = Some subs"
  shows "NewMouseState h winp b0 tleft tright tmiddle =
     (Inr (nextAddr h),
      \<lparr>nextAddr = Suc (Suc (nextAddr h)),
       windows = (windows h)(winp \<mapsto>
          subs @ [(OnMouseUp, Suc (nextAddr h), MethodOnMouseUp (nextAddr h)),
                  (OnMouseDown, Suc (nextAddr h), MethodOnMouseDown (nextAddr h))]),
       trackers = (trackers h)(nextAddr h \<mapsto> freshMouseState winp b0 tleft tright tmiddle),
       ptrVars = (ptrVars h)(Suc (nextAddr h) \<mapsto> nextAddr h)\<rparr>)"
  using assms by (simp add: NewMouseState_def alloc_def SubscribeID_def)

text \<open>
  Unsubscribing under the token of the registrations removes them; under another token it
  leaves them.
\<close>

lemma UnsubscribeID_other_token:
  "i \<noteq> ident \<Longrightarrow> (n, i, h) \<in> set subs \<Longrightarrow>
   (n, i, h) \<in> set (UnsubscribeID subs evname ident)"
  by (simp add: UnsubscribeID_def)

lemma UnsubscribeID_same_token:
  "UnsubscribeID (UnsubscribeID
      [(OnMouseUp, v, MethodOnMouseUp p), (OnMouseDown, v, MethodOnMouseDown p)] OnMouseUp v)
      OnMouseDown v = []"
  by (simp add: UnsubscribeID_def OnMouseUp_def OnMouseDown_def)

text \<open>
  In any store that has the window, disposing of the tracker just constructed returns
  normally and leaves both of its handlers registered: the token of \<^verbatim>\<open>Dispose\<close> is the
  address of a variable allocated after the one whose address is the token of the
  registrations.
\<close>

lemma Dispose_after_NewMouseState:
  assumes "windows h winp = Some subs"
  shows "\<exists>subs'.
     fst (Dispose (snd (NewMouseState h winp b0 tleft tright tmiddle)) (nextAddr h)) = Inr () \<and>
     windows (snd (Dispose (snd (NewMouseState h winp b0 tleft tright tmiddle)) (nextAddr h))) winp
       = Some subs' \<and>
     (OnMouseUp, Suc (nextAddr h), MethodOnMouseUp (nextAddr h)) \<in> set subs' \<and>
     (OnMouseDown, Suc (nextAddr h), MethodOnMouseDown (nextAddr h)) \<in> set subs'"
  by (simp add: NewMouseState_window [OF assms] Dispose_def alloc_def fresh_fields
      UnsubscribeID_other_token)

text \<open>The fields after a write to a record.\<close>

lemma setState_simps [simp]:
  "states (setState ms b s) = (states ms)(b \<mapsto> s)"
  "lastButton (setState ms b s) = lastButton ms"
  "DoubleClickDuration (setState ms b s) = DoubleClickDuration ms"
  "win (setState ms b s) = win ms"
  by (simp_all add: setState_def)

section \<open>The claims\<close>

subsection \<open>C1: the transitions of a button-down\<close>

text \<open>
  C1: for a button that has a record, \<^verbatim>\<open>onMouseDown\<close> at the clock reading \<open>now\<close>
  returns normally and leaves the record as the transition table says. From phase \<open>0\<close>:
  phase \<open>1\<close> and last click \<open>now\<close>. From phase \<open>-1\<close> when the last click plus the window is
  not before \<open>now\<close>: phase \<open>2\<close>, last click as it was; when it is before \<open>now\<close>: phase \<open>1\<close>
  and last click \<open>now\<close>. From phase \<open>-2\<close>, \<open>1\<close> or \<open>2\<close>: phase \<open>1\<close> and last click \<open>now\<close>.
  At the boundary, \<open>now\<close> equal to the last click plus the window, the phase becomes \<open>2\<close>.
\<close>

theorem onMouseDown_transition_table:
  assumes "states ms b = Some s"
  shows "fst (onMouseDown ms evname (mouseEvent b) now) = Inr () \<and>
    (clickCount s = 0 \<longrightarrow>
       states (snd (onMouseDown ms evname (mouseEvent b) now)) b
         = Some \<lparr>clickCount = 1, lastClick = now\<rparr>) \<and>
    (clickCount s = - 1 \<and> \<not> Before (Add (lastClick s) (DoubleClickDuration ms)) now \<longrightarrow>
       states (snd (onMouseDown ms evname (mouseEvent b) now)) b
         = Some \<lparr>clickCount = 2, lastClick = lastClick s\<rparr>) \<and>
    (clickCount s = - 1 \<and> Before (Add (lastClick s) (DoubleClickDuration ms)) now \<longrightarrow>
       states (snd (onMouseDown ms evname (mouseEvent b) now)) b
         = Some \<lparr>clickCount = 1, lastClick = now\<rparr>) \<and>
    (clickCount s = - 2 \<or> clickCount s = 1 \<or> clickCount s = 2 \<longrightarrow>
       states (snd (onMouseDown ms evname (mouseEvent b) now)) b
         = Some \<lparr>clickCount = 1, lastClick = now\<rparr>) \<and>
    (clickCount s = - 1 \<and> now = lastClick s + DoubleClickDuration ms \<longrightarrow>
       states (snd (onMouseDown ms evname (mouseEvent b) now)) b
         = Some \<lparr>clickCount = 2, lastClick = lastClick s\<rparr>)"
  using assms
  by (simp add: onMouseDown_def mouseEvent_def setState_def Before_def Add_def Let_def)

text \<open>
  The table at the left button of example trackers, one row after the other; the window
  is 300 ms and the last click is at 5 ns.
\<close>

theorem onMouseDown_transition_table_witness:
  "states (leftAt 0 5) MouseButtonLeft = Some \<lparr>clickCount = 0, lastClick = 5\<rparr> \<and>
   fst (onMouseDown (leftAt 0 5) OnMouseDown (mouseEvent MouseButtonLeft) 7) = Inr () \<and>
   states (snd (onMouseDown (leftAt 0 5) OnMouseDown (mouseEvent MouseButtonLeft) 7))
     MouseButtonLeft = Some \<lparr>clickCount = 1, lastClick = 7\<rparr> \<and>
   states (snd (onMouseDown (leftAt (- 1) 5) OnMouseDown (mouseEvent MouseButtonLeft) 100000005))
     MouseButtonLeft = Some \<lparr>clickCount = 2, lastClick = 5\<rparr> \<and>
   states (snd (onMouseDown (leftAt (- 1) 5) OnMouseDown (mouseEvent MouseButtonLeft) 300000005))
     MouseButtonLeft = Some \<lparr>clickCount = 2, lastClick = 5\<rparr> \<and>
   states (snd (onMouseDown (leftAt (- 1) 5) OnMouseDown (mouseEvent MouseButtonLeft) 300000006))
     MouseButtonLeft = Some \<lparr>clickCount = 1, lastClick = 300000006\<rparr> \<and>
   states (snd (onMouseDown (leftAt (- 2) 5) OnMouseDown (mouseEvent MouseButtonLeft) 7))
     MouseButtonLeft = Some \<lparr>clickCount = 1, lastClick = 7\<rparr> \<and>
   states (snd (onMouseDown (leftAt 1 5) OnMouseDown (mouseEvent MouseButtonLeft) 7))
     MouseButtonLeft = Some \<lparr>clickCount = 1, lastClick = 7\<rparr> \<and>
   states (snd (onMouseDown (leftAt 2 5) OnMouseDown (mouseEvent MouseButtonLeft) 7))
     MouseButtonLeft = Some \<lparr>clickCount = 1, lastClick = 7\<rparr>"
  using
    onMouseDown_transition_table [OF leftAt_simps(1), of 0 5 OnMouseDown 7]
    onMouseDown_transition_table [OF leftAt_simps(1), of "- 1" 5 OnMouseDown 100000005]
    onMouseDown_transition_table [OF leftAt_simps(1), of "- 1" 5 OnMouseDown 300000005]
    onMouseDown_transition_table [OF leftAt_simps(1), of "- 1" 5 OnMouseDown 300000006]
    onMouseDown_transition_table [OF leftAt_simps(1), of "- 2" 5 OnMouseDown 7]
    onMouseDown_transition_table [OF leftAt_simps(1), of 1 5 OnMouseDown 7]
    onMouseDown_transition_table [OF leftAt_simps(1), of 2 5 OnMouseDown 7]
  by (simp add: leftAt_simps Before_def Add_def)

subsection \<open>C2: a button-up negates a positive phase\<close>

text \<open>
  C2: for a button that has a record, \<^verbatim>\<open>onMouseUp\<close> returns normally; when the phase is
  positive it negates the phase (\<open>1\<close> becomes \<open>-1\<close>, \<open>2\<close> becomes \<open>-2\<close>) and changes
  nothing else, and otherwise it leaves the whole tracker as it was. On a fresh tracker an
  up event for a tracked button changes nothing and raises no error, and afterwards
  \<^verbatim>\<open>Pressed\<close> and the double-click queries are false.
\<close>

theorem onMouseUp_negates_positive:
  "(states ms b = Some s \<longrightarrow>
      fst (onMouseUp ms evname (mouseEvent b)) = Inr () \<and>
      (0 < clickCount s \<longrightarrow>
         snd (onMouseUp ms evname (mouseEvent b))
           = ms\<lparr>states := (states ms)(b \<mapsto> s\<lparr>clickCount := - clickCount s\<rparr>)\<rparr>) \<and>
      (clickCount s = 1 \<longrightarrow>
         states (snd (onMouseUp ms evname (mouseEvent b))) b
           = Some \<lparr>clickCount = - 1, lastClick = lastClick s\<rparr>) \<and>
      (clickCount s = 2 \<longrightarrow>
         states (snd (onMouseUp ms evname (mouseEvent b))) b
           = Some \<lparr>clickCount = - 2, lastClick = lastClick s\<rparr>) \<and>
      (\<not> 0 < clickCount s \<longrightarrow> snd (onMouseUp ms evname (mouseEvent b)) = ms)) \<and>
   (tracked b \<longrightarrow>
      onMouseUp (freshMouseState winp b0 tleft tright tmiddle) evname (mouseEvent b)
        = (Inr (), freshMouseState winp b0 tleft tright tmiddle) \<and>
      Pressed (freshMouseState winp b0 tleft tright tmiddle) b = Inr False \<and>
      DoubleClicked (freshMouseState winp b0 tleft tright tmiddle) b = Inr False \<and>
      LeftDoubleClicked (freshMouseState winp b0 tleft tright tmiddle) = Inr False \<and>
      RightDoubleClicked (freshMouseState winp b0 tleft tright tmiddle) = Inr False \<and>
      MiddleDoubleClicked (freshMouseState winp b0 tleft tright tmiddle) = Inr False)"
proof -
  let ?f = "freshMouseState winp b0 tleft tright tmiddle"
  have up: "states ms b = Some s \<longrightarrow>
      fst (onMouseUp ms evname (mouseEvent b)) = Inr () \<and>
      (0 < clickCount s \<longrightarrow>
         snd (onMouseUp ms evname (mouseEvent b))
           = ms\<lparr>states := (states ms)(b \<mapsto> s\<lparr>clickCount := - clickCount s\<rparr>)\<rparr>) \<and>
      (clickCount s = 1 \<longrightarrow>
         states (snd (onMouseUp ms evname (mouseEvent b))) b
           = Some \<lparr>clickCount = - 1, lastClick = lastClick s\<rparr>) \<and>
      (clickCount s = 2 \<longrightarrow>
         states (snd (onMouseUp ms evname (mouseEvent b))) b
           = Some \<lparr>clickCount = - 2, lastClick = lastClick s\<rparr>) \<and>
      (\<not> 0 < clickCount s \<longrightarrow> snd (onMouseUp ms evname (mouseEvent b)) = ms)"
    by (simp add: onMouseUp_Some setState_def)
  have fresh: "onMouseUp ?f evname (mouseEvent b) = (Inr (), ?f) \<and>
      Pressed ?f b = Inr False \<and> DoubleClicked ?f b = Inr False" if "tracked b"
    using that
    by (auto simp: tracked_def onMouseUp_Some fresh_states Pressed_def DoubleClicked_def
        doubleClicked_def)
  have acc: "LeftDoubleClicked ?f = Inr False \<and> RightDoubleClicked ?f = Inr False \<and>
      MiddleDoubleClicked ?f = Inr False"
    by (simp add: accessors_DoubleClicked DoubleClicked_def fresh_states doubleClicked_def)
  from up fresh acc show ?thesis by blast
qed

text \<open>
  The left button of example trackers at the phases \<open>1\<close>, \<open>2\<close> and \<open>-1\<close>, and an up
  event on a fresh tracker.
\<close>

theorem onMouseUp_negates_positive_witness:
  "states (leftAt 1 5) MouseButtonLeft = Some \<lparr>clickCount = 1, lastClick = 5\<rparr> \<and>
   fst (onMouseUp (leftAt 1 5) OnMouseUp (mouseEvent MouseButtonLeft)) = Inr () \<and>
   states (snd (onMouseUp (leftAt 1 5) OnMouseUp (mouseEvent MouseButtonLeft))) MouseButtonLeft
     = Some \<lparr>clickCount = - 1, lastClick = 5\<rparr> \<and>
   states (snd (onMouseUp (leftAt 2 5) OnMouseUp (mouseEvent MouseButtonLeft))) MouseButtonLeft
     = Some \<lparr>clickCount = - 2, lastClick = 5\<rparr> \<and>
   snd (onMouseUp (leftAt (- 1) 5) OnMouseUp (mouseEvent MouseButtonLeft)) = leftAt (- 1) 5 \<and>
   tracked MouseButtonLeft \<and>
   onMouseUp (freshMouseState 0 MouseButtonLeft 0 0 0) OnMouseUp (mouseEvent MouseButtonLeft)
     = (Inr (), freshMouseState 0 MouseButtonLeft 0 0 0) \<and>
   Pressed (freshMouseState 0 MouseButtonLeft 0 0 0) MouseButtonLeft = Inr False \<and>
   DoubleClicked (freshMouseState 0 MouseButtonLeft 0 0 0) MouseButtonLeft = Inr False"
  using
    onMouseUp_negates_positive [of "leftAt 1 5" MouseButtonLeft
      "\<lparr>clickCount = 1, lastClick = 5\<rparr>" OnMouseUp 0 MouseButtonLeft 0 0 0]
    onMouseUp_negates_positive [of "leftAt 2 5" MouseButtonLeft
      "\<lparr>clickCount = 2, lastClick = 5\<rparr>" OnMouseUp 0 MouseButtonLeft 0 0 0]
    onMouseUp_negates_positive [of "leftAt (- 1) 5" MouseButtonLeft
      "\<lparr>clickCount = - 1, lastClick = 5\<rparr>" OnMouseUp 0 MouseButtonLeft 0 0 0]
  by (simp add: leftAt_simps tracked_def)

subsection \<open>C3: the double-click query\<close>

text \<open>
  C3: for a button that has a record, the double-click query is true exactly when the
  button is \<^verbatim>\<open>lastButton\<close> and its phase is \<open>2\<close> or \<open>-2\<close>: for each of the three accessors
  of the code and for their common body at any button. For a button other than
  \<^verbatim>\<open>lastButton\<close> the query is false whatever the button's own phase.
\<close>

theorem DoubleClicked_iff_last_button_and_phase:
  "(states ms MouseButtonLeft = Some s \<longrightarrow>
      LeftDoubleClicked ms =
        Inr (MouseButtonLeft = lastButton ms \<and> (clickCount s = 2 \<or> clickCount s = - 2))) \<and>
   (states ms MouseButtonRight = Some s \<longrightarrow>
      RightDoubleClicked ms =
        Inr (MouseButtonRight = lastButton ms \<and> (clickCount s = 2 \<or> clickCount s = - 2))) \<and>
   (states ms MouseButtonMiddle = Some s \<longrightarrow>
      MiddleDoubleClicked ms =
        Inr (MouseButtonMiddle = lastButton ms \<and> (clickCount s = 2 \<or> clickCount s = - 2))) \<and>
   (states ms b = Some s \<longrightarrow>
      DoubleClicked ms b = Inr (b = lastButton ms \<and> (clickCount s = 2 \<or> clickCount s = - 2))) \<and>
   (b \<noteq> lastButton ms \<longrightarrow> DoubleClicked ms b = Inr False)"
proof -
  have body: "DoubleClicked ms c
      = Inr (c = lastButton ms \<and> (clickCount s = 2 \<or> clickCount s = - 2))"
    if "states ms c = Some s" for c
    using that by (auto simp: DoubleClicked_def doubleClicked_def)
  have other: "DoubleClicked ms b = Inr False" if "b \<noteq> lastButton ms"
    using that by (auto simp: DoubleClicked_def)
  from body other show ?thesis
    unfolding accessors_DoubleClicked by blast
qed

text \<open>
  The left button at phase \<open>-2\<close> as the last button, at phase \<open>-1\<close>, and at phase \<open>-2\<close>
  when the last button is the right one.
\<close>

theorem DoubleClicked_iff_last_button_and_phase_witness:
  "states (leftAt (- 2) 5) MouseButtonLeft = Some \<lparr>clickCount = - 2, lastClick = 5\<rparr> \<and>
   lastButton (leftAt (- 2) 5) = MouseButtonLeft \<and>
   LeftDoubleClicked (leftAt (- 2) 5) = Inr True \<and>
   DoubleClicked (leftAt (- 2) 5) MouseButtonLeft = Inr True \<and>
   LeftDoubleClicked (leftAt (- 1) 5) = Inr False \<and>
   states ((leftAt (- 2) 5)\<lparr>lastButton := MouseButtonRight\<rparr>) MouseButtonLeft
     = Some \<lparr>clickCount = - 2, lastClick = 5\<rparr> \<and>
   LeftDoubleClicked ((leftAt (- 2) 5)\<lparr>lastButton := MouseButtonRight\<rparr>) = Inr False \<and>
   DoubleClicked ((leftAt (- 2) 5)\<lparr>lastButton := MouseButtonRight\<rparr>) MouseButtonLeft = Inr False"
  using
    DoubleClicked_iff_last_button_and_phase [of "leftAt (- 2) 5"
      "\<lparr>clickCount = - 2, lastClick = 5\<rparr>" MouseButtonLeft]
    DoubleClicked_iff_last_button_and_phase [of "leftAt (- 1) 5"
      "\<lparr>clickCount = - 1, lastClick = 5\<rparr>" MouseButtonLeft]
    DoubleClicked_iff_last_button_and_phase [of "(leftAt (- 2) 5)\<lparr>lastButton := MouseButtonRight\<rparr>"
      "\<lparr>clickCount = - 2, lastClick = 5\<rparr>" MouseButtonLeft]
  by (simp add: leftAt_simps)

subsection \<open>C4: the pressed query\<close>

text \<open>
  C4, as stated, says that \<^verbatim>\<open>Pressed\<close> returns false for a button identity outside the
  tracked set. On a fresh tracker \<^verbatim>\<open>Pressed\<close> of such a button does not return false: the
  map has no entry for it, \<^verbatim>\<open>ms.states[b]\<close> is the nil pointer and reading
  \<^verbatim>\<open>clickCount\<close> through it panics.
\<close>

theorem Pressed_untracked_counterexample:
  "\<not> tracked (MouseButtonOther 0) \<and>
   Pressed (freshMouseState 0 MouseButtonLeft 0 0 0) (MouseButtonOther 0) = Inl NilDereference \<and>
   Pressed (freshMouseState 0 MouseButtonLeft 0 0 0) (MouseButtonOther 0) \<noteq> Inr False"
  by (simp add: Pressed_def fresh_states tracked_def)

text \<open>
  C4, amended: in every tracker that a run leaves, a tracked button has a record and
  \<^verbatim>\<open>Pressed\<close> returns true exactly when the button's phase is greater than \<open>0\<close>; for a
  button identity outside the tracked set \<^verbatim>\<open>Pressed\<close> panics with a nil dereference. In
  any tracker, \<^verbatim>\<open>Pressed\<close> answers by the record when there is one and panics when there
  is none, and the three accessors of the code are \<^verbatim>\<open>Pressed\<close> at their buttons.
\<close>

theorem Pressed_tracked_iff_positive:
  "(tracked b \<longrightarrow>
      (\<exists>s. states (snd (run (freshMouseState winp b0 tleft tright tmiddle) es)) b = Some s \<and>
           Pressed (snd (run (freshMouseState winp b0 tleft tright tmiddle) es)) b
             = Inr (0 < clickCount s))) \<and>
   (\<not> tracked b \<longrightarrow>
      Pressed (snd (run (freshMouseState winp b0 tleft tright tmiddle) es)) b
        = Inl NilDereference) \<and>
   (states ms b = Some s \<longrightarrow> Pressed ms b = Inr (0 < clickCount s)) \<and>
   (states ms b = None \<longrightarrow> Pressed ms b = Inl NilDereference) \<and>
   LeftPressed ms = Pressed ms MouseButtonLeft \<and>
   RightPressed ms = Pressed ms MouseButtonRight \<and>
   MiddlePressed ms = Pressed ms MouseButtonMiddle"
proof -
  let ?r = "snd (run (freshMouseState winp b0 tleft tright tmiddle) es)"
  have i: "trackerInv ?r" by (rule trackerInv_run [OF trackerInv_fresh])
  have "\<exists>s. states ?r b = Some s \<and> Pressed ?r b = Inr (0 < clickCount s)" if "tracked b"
    using trackerInv_tracked [OF i that] by (auto simp: Pressed_def)
  moreover have "Pressed ?r b = Inl NilDereference" if "\<not> tracked b"
    using trackerInv_untracked [OF i that] by (simp add: Pressed_def)
  ultimately show ?thesis
    by (simp add: accessors_Pressed) (simp add: Pressed_def)
qed

text \<open>
  After one down event for the left button: the left button is pressed, and the query
  for an untracked button panics. A released left button is not pressed.
\<close>

theorem Pressed_tracked_iff_positive_witness:
  "tracked MouseButtonLeft \<and>
   Pressed (snd (run (freshMouseState 0 MouseButtonLeft 0 0 0)
       [Down OnMouseDown (mouseEvent MouseButtonLeft) 5])) MouseButtonLeft = Inr True \<and>
   states (leftAt (- 1) 5) MouseButtonLeft = Some \<lparr>clickCount = - 1, lastClick = 5\<rparr> \<and>
   Pressed (leftAt (- 1) 5) MouseButtonLeft = Inr False \<and>
   \<not> tracked (MouseButtonOther 3) \<and>
   Pressed (snd (run (freshMouseState 0 MouseButtonLeft 0 0 0)
       [Down OnMouseDown (mouseEvent MouseButtonLeft) 5])) (MouseButtonOther 3)
     = Inl NilDereference"
  using
    Pressed_tracked_iff_positive [of MouseButtonLeft 0 MouseButtonLeft 0 0 0
      "[Down OnMouseDown (mouseEvent MouseButtonLeft) 5]" "leftAt (- 1) 5"
      "\<lparr>clickCount = - 1, lastClick = 5\<rparr>"]
    Pressed_tracked_iff_positive [of "MouseButtonOther 3" 0 MouseButtonLeft 0 0 0
      "[Down OnMouseDown (mouseEvent MouseButtonLeft) 5]" "leftAt (- 1) 5"
      "\<lparr>clickCount = - 1, lastClick = 5\<rparr>"]
  by (simp add: tracked_def leftAt_simps onMouseDown_Some fresh_states setState_def)

subsection \<open>C5: disposal\<close>

text \<open>
  C5 says that \<^verbatim>\<open>Dispose\<close> unregisters both handlers with the token that was passed at
  construction. In the store with one window and no subscriber, \<^verbatim>\<open>NewMouseState\<close> creates
  the tracker at address 1 and registers both handlers under the token 2, the address of
  its local variable \<^verbatim>\<open>ms\<close>. \<^verbatim>\<open>Dispose\<close> of that tracker returns normally; its token is 3,
  the address of its own receiver variable (both variables hold the pointer 1), so the
  registry is what it was before the call and the event source still delivers both events
  to the tracker's handlers.
\<close>

theorem Dispose_leaves_handlers_subscribed:
  "fst (NewMouseState emptyWindowStore 0 MouseButtonLeft 0 0 0) = Inr 1 \<and>
   windows (snd (NewMouseState emptyWindowStore 0 MouseButtonLeft 0 0 0)) 0
     = Some [(OnMouseUp, 2, MethodOnMouseUp 1), (OnMouseDown, 2, MethodOnMouseDown 1)] \<and>
   fst (Dispose (snd (NewMouseState emptyWindowStore 0 MouseButtonLeft 0 0 0)) 1) = Inr () \<and>
   ptrVars (snd (Dispose (snd (NewMouseState emptyWindowStore 0 MouseButtonLeft 0 0 0)) 1)) 2
     = Some 1 \<and>
   ptrVars (snd (Dispose (snd (NewMouseState emptyWindowStore 0 MouseButtonLeft 0 0 0)) 1)) 3
     = Some 1 \<and>
   windows (snd (Dispose (snd (NewMouseState emptyWindowStore 0 MouseButtonLeft 0 0 0)) 1)) 0
     = Some [(OnMouseUp, 2, MethodOnMouseUp 1), (OnMouseDown, 2, MethodOnMouseDown 1)] \<and>
   handlersFor [(OnMouseUp, 2, MethodOnMouseUp 1), (OnMouseDown, 2, MethodOnMouseDown 1)] OnMouseUp
     = [MethodOnMouseUp 1] \<and>
   handlersFor [(OnMouseUp, 2, MethodOnMouseUp 1), (OnMouseDown, 2, MethodOnMouseDown 1)] OnMouseDown
     = [MethodOnMouseDown 1]"
proof -
  have w: "windows emptyWindowStore 0 = Some []" by (simp add: emptyWindowStore_def)
  have new: "NewMouseState emptyWindowStore 0 MouseButtonLeft 0 0 0 =
     (Inr 1,
      \<lparr>nextAddr = 3,
       windows = [0 \<mapsto> [(OnMouseUp, 2, MethodOnMouseUp 1), (OnMouseDown, 2, MethodOnMouseDown 1)]],
       trackers = [1 \<mapsto> freshMouseState 0 MouseButtonLeft 0 0 0],
       ptrVars = [2 \<mapsto> 1]\<rparr>)"
    unfolding NewMouseState_window [OF w] by (simp add: emptyWindowStore_def numeral_3_eq_3 numeral_2_eq_2)
  show ?thesis
    unfolding new
    by (simp add: Dispose_def alloc_def fresh_fields UnsubscribeID_def handlersFor_def
        OnMouseUp_def OnMouseDown_def)
qed

subsection \<open>C6: the handlers at untracked buttons\<close>

text \<open>
  C6, as stated, says that the handlers return normally for every delivered event, also
  for one that carries a button identity outside the tracked set. On a fresh tracker both
  handlers panic at such an event: \<^verbatim>\<open>ms.states[mev.Button]\<close> is the nil pointer.
\<close>

theorem handlers_untracked_counterexample:
  "\<not> tracked (MouseButtonOther 0) \<and>
   fst (onMouseDown (freshMouseState 0 MouseButtonLeft 0 0 0) OnMouseDown
          (mouseEvent (MouseButtonOther 0)) 5) = Inl NilDereference \<and>
   fst (onMouseUp (freshMouseState 0 MouseButtonLeft 0 0 0) OnMouseUp
          (mouseEvent (MouseButtonOther 0))) = Inl NilDereference"
  by (simp add: onMouseDown_None onMouseUp_None fresh_states tracked_def)

text \<open>
  C6, amended: in every tracker that a run leaves, both handlers return normally at a
  mouse event for a tracked button. At a mouse event for a button identity outside the
  tracked set both panic with a nil dereference: \<^verbatim>\<open>onMouseUp\<close> leaves the tracker as it
  was, \<^verbatim>\<open>onMouseDown\<close> has already written \<^verbatim>\<open>lastButton\<close>.
\<close>

theorem handlers_return_on_tracked:
  "(tracked b \<longrightarrow>
      fst (onMouseDown (snd (run (freshMouseState winp b0 tleft tright tmiddle) es))
             evname (mouseEvent b) now) = Inr () \<and>
      fst (onMouseUp (snd (run (freshMouseState winp b0 tleft tright tmiddle) es))
             evname (mouseEvent b)) = Inr ()) \<and>
   (\<not> tracked b \<longrightarrow>
      onMouseDown (snd (run (freshMouseState winp b0 tleft tright tmiddle) es))
          evname (mouseEvent b) now
        = (Inl NilDereference,
           (snd (run (freshMouseState winp b0 tleft tright tmiddle) es))\<lparr>lastButton := b\<rparr>) \<and>
      onMouseUp (snd (run (freshMouseState winp b0 tleft tright tmiddle) es))
          evname (mouseEvent b)
        = (Inl NilDereference, snd (run (freshMouseState winp b0 tleft tright tmiddle) es)))"
proof -
  let ?r = "snd (run (freshMouseState winp b0 tleft tright tmiddle) es)"
  have i: "trackerInv ?r" by (rule trackerInv_run [OF trackerInv_fresh])
  have "fst (onMouseDown ?r evname (mouseEvent b) now) = Inr () \<and>
        fst (onMouseUp ?r evname (mouseEvent b)) = Inr ()" if "tracked b"
    using trackerInv_tracked [OF i that] by (auto simp: onMouseDown_Some onMouseUp_Some)
  moreover have "onMouseDown ?r evname (mouseEvent b) now = (Inl NilDereference, ?r\<lparr>lastButton := b\<rparr>) \<and>
        onMouseUp ?r evname (mouseEvent b) = (Inl NilDereference, ?r)" if "\<not> tracked b"
    using trackerInv_untracked [OF i that] by (simp add: onMouseDown_None onMouseUp_None)
  ultimately show ?thesis by blast
qed

text \<open>
  After one down event for the left button: both handlers return at the middle button,
  and \<^verbatim>\<open>onMouseDown\<close> panics at an untracked one.
\<close>

theorem handlers_return_on_tracked_witness:
  "tracked MouseButtonMiddle \<and>
   fst (onMouseDown (snd (run (freshMouseState 0 MouseButtonLeft 0 0 0)
          [Down OnMouseDown (mouseEvent MouseButtonLeft) 5]))
        OnMouseDown (mouseEvent MouseButtonMiddle) 9) = Inr () \<and>
   fst (onMouseUp (snd (run (freshMouseState 0 MouseButtonLeft 0 0 0)
          [Down OnMouseDown (mouseEvent MouseButtonLeft) 5]))
        OnMouseDown (mouseEvent MouseButtonMiddle)) = Inr () \<and>
   \<not> tracked (MouseButtonOther 3) \<and>
   fst (onMouseDown (snd (run (freshMouseState 0 MouseButtonLeft 0 0 0)
          [Down OnMouseDown (mouseEvent MouseButtonLeft) 5]))
        OnMouseDown (mouseEvent (MouseButtonOther 3)) 9) = Inl NilDereference"
  using
    handlers_return_on_tracked [of MouseButtonMiddle 0 MouseButtonLeft 0 0 0
      "[Down OnMouseDown (mouseEvent MouseButtonLeft) 5]" OnMouseDown 9]
    handlers_return_on_tracked [of "MouseButtonOther 3" 0 MouseButtonLeft 0 0 0
      "[Down OnMouseDown (mouseEvent MouseButtonLeft) 5]" OnMouseDown 9]
  by (simp add: tracked_def)

subsection \<open>C7: the phases of a run\<close>

text \<open>
  C7: for every tracked button and every sequence of down and up events applied to a
  freshly constructed tracker, the button has a record and its phase is one of
  \<open>-2\<close>, \<open>-1\<close>, \<open>0\<close>, \<open>1\<close>, \<open>2\<close>.
\<close>

theorem phase_always_in_range:
  "tracked b \<Longrightarrow>
   \<exists>s. states (snd (run (freshMouseState winp b0 tleft tright tmiddle) es)) b = Some s \<and>
       phaseOk (clickCount s)"
proof -
  assume t: "tracked b"
  have "trackerInv (freshMouseState winp b0 tleft tright tmiddle)"
    by (rule trackerInv_fresh)
  then have "trackerInv (snd (run (freshMouseState winp b0 tleft tright tmiddle) es))"
    by (rule trackerInv_run)
  then show ?thesis
    using t by (rule trackerInv_tracked)
qed

text \<open>
  The left button after down, up, down.
\<close>

theorem phase_always_in_range_witness:
  "tracked MouseButtonLeft \<and>
   (\<exists>s. states (snd (run (freshMouseState 0 MouseButtonLeft 0 0 0)
           [Down OnMouseDown (mouseEvent MouseButtonLeft) 5,
            Up OnMouseUp (mouseEvent MouseButtonLeft),
            Down OnMouseDown (mouseEvent MouseButtonLeft) 9])) MouseButtonLeft = Some s \<and>
        phaseOk (clickCount s))"
proof -
  have t: "tracked MouseButtonLeft" by (simp add: tracked_def)
  from t phase_always_in_range [OF t] show ?thesis by blast
qed

subsection \<open>C8: a double click within the window\<close>

text \<open>
  C8: the window of a fresh tracker is 300 ms. For a tracked button \<open>A\<close>, after down at
  \<open>t0\<close>, up, and down at \<open>t0\<close> plus 100 ms on a fresh tracker, no handler has panicked,
  the phase of \<open>A\<close> is \<open>2\<close>, and \<open>A\<close> is double-clicked and pressed. After one more up
  the phase is \<open>-2\<close>, \<open>A\<close> is still double-clicked and no longer pressed. (The time of
  an up event plays no part: \<^verbatim>\<open>onMouseUp\<close> does not read the clock. At a tracked
  button \<open>DoubleClicked\<close> and \<open>Pressed\<close> are the accessors of the code, by
  \<open>accessors_DoubleClicked\<close> and \<open>accessors_Pressed\<close>.)
\<close>

theorem double_click_within_window:
  assumes "tracked A"
  shows
   "DoubleClickDuration (freshMouseState winp b0 tleft tright tmiddle) = 300 * Millisecond \<and>
    fst (run (freshMouseState winp b0 tleft tright tmiddle)
      [Down n1 (mouseEvent A) t0, Up n2 (mouseEvent A),
       Down n3 (mouseEvent A) (t0 + 100 * Millisecond)]) = Inr () \<and>
    states (snd (run (freshMouseState winp b0 tleft tright tmiddle)
      [Down n1 (mouseEvent A) t0, Up n2 (mouseEvent A),
       Down n3 (mouseEvent A) (t0 + 100 * Millisecond)])) A
      = Some \<lparr>clickCount = 2, lastClick = t0\<rparr> \<and>
    DoubleClicked (snd (run (freshMouseState winp b0 tleft tright tmiddle)
      [Down n1 (mouseEvent A) t0, Up n2 (mouseEvent A),
       Down n3 (mouseEvent A) (t0 + 100 * Millisecond)])) A = Inr True \<and>
    Pressed (snd (run (freshMouseState winp b0 tleft tright tmiddle)
      [Down n1 (mouseEvent A) t0, Up n2 (mouseEvent A),
       Down n3 (mouseEvent A) (t0 + 100 * Millisecond)])) A = Inr True \<and>
    fst (run (freshMouseState winp b0 tleft tright tmiddle)
      [Down n1 (mouseEvent A) t0, Up n2 (mouseEvent A),
       Down n3 (mouseEvent A) (t0 + 100 * Millisecond), Up n4 (mouseEvent A)]) = Inr () \<and>
    states (snd (run (freshMouseState winp b0 tleft tright tmiddle)
      [Down n1 (mouseEvent A) t0, Up n2 (mouseEvent A),
       Down n3 (mouseEvent A) (t0 + 100 * Millisecond), Up n4 (mouseEvent A)])) A
      = Some \<lparr>clickCount = - 2, lastClick = t0\<rparr> \<and>
    DoubleClicked (snd (run (freshMouseState winp b0 tleft tright tmiddle)
      [Down n1 (mouseEvent A) t0, Up n2 (mouseEvent A),
       Down n3 (mouseEvent A) (t0 + 100 * Millisecond), Up n4 (mouseEvent A)])) A = Inr True \<and>
    Pressed (snd (run (freshMouseState winp b0 tleft tright tmiddle)
      [Down n1 (mouseEvent A) t0, Up n2 (mouseEvent A),
       Down n3 (mouseEvent A) (t0 + 100 * Millisecond), Up n4 (mouseEvent A)])) A = Inr False"
proof -
  let ?f = "freshMouseState winp b0 tleft tright tmiddle"
  from assms obtain t where s0: "states ?f A = Some \<lparr>clickCount = 0, lastClick = t\<rparr>"
    by (auto simp: tracked_def fresh_states)
  show ?thesis
    by (simp add: run_simps2 onMouseDown_Some onMouseUp_Some s0 fresh_fields Millisecond_def
        DoubleClicked_def Pressed_def doubleClicked_def del: step.simps run.simps(2))
qed

text \<open>
  The scenario at the right button, with \<open>t0\<close> at 1000 ns.
\<close>

theorem double_click_within_window_witness:
  "tracked MouseButtonRight \<and>
   states (snd (run (freshMouseState 0 MouseButtonLeft 0 0 0)
      [Down OnMouseDown (mouseEvent MouseButtonRight) 1000, Up OnMouseUp (mouseEvent MouseButtonRight),
       Down OnMouseDown (mouseEvent MouseButtonRight) (1000 + 100 * Millisecond)])) MouseButtonRight
      = Some \<lparr>clickCount = 2, lastClick = 1000\<rparr> \<and>
   DoubleClicked (snd (run (freshMouseState 0 MouseButtonLeft 0 0 0)
      [Down OnMouseDown (mouseEvent MouseButtonRight) 1000, Up OnMouseUp (mouseEvent MouseButtonRight),
       Down OnMouseDown (mouseEvent MouseButtonRight) (1000 + 100 * Millisecond),
       Up OnMouseUp (mouseEvent MouseButtonRight)])) MouseButtonRight = Inr True \<and>
   Pressed (snd (run (freshMouseState 0 MouseButtonLeft 0 0 0)
      [Down OnMouseDown (mouseEvent MouseButtonRight) 1000, Up OnMouseUp (mouseEvent MouseButtonRight),
       Down OnMouseDown (mouseEvent MouseButtonRight) (1000 + 100 * Millisecond),
       Up OnMouseUp (mouseEvent MouseButtonRight)])) MouseButtonRight = Inr False"
proof -
  have t: "tracked MouseButtonRight" by (simp add: tracked_def)
  from t double_click_within_window [OF t, of 0 MouseButtonLeft 0 0 0 OnMouseDown 1000 OnMouseUp
      OnMouseDown OnMouseUp]
  show ?thesis by simp
qed

subsection \<open>C9: the last button gates the double click\<close>

text \<open>
  C9: every call of \<^verbatim>\<open>onMouseDown\<close> with a mouse event leaves \<^verbatim>\<open>lastButton\<close> at the
  event's button, whatever the tracker and the button (it is written before the state of
  the button is read). For tracked buttons \<open>A\<close> and \<open>B\<close>, after down of \<open>A\<close> at \<open>t0\<close>, up
  of \<open>A\<close>, down of \<open>B\<close> at \<open>t0\<close> plus 600 ms and up of \<open>B\<close> on a fresh tracker, no
  handler has panicked and neither \<open>A\<close> nor \<open>B\<close> is double-clicked.
\<close>

theorem lastButton_gates_cross_button:
  "lastButton (snd (onMouseDown ms evname (mouseEvent b) now)) = b \<and>
   (tracked A \<and> tracked B \<longrightarrow>
      fst (run (freshMouseState winp b0 tleft tright tmiddle)
        [Down n1 (mouseEvent A) t0, Up n2 (mouseEvent A),
         Down n3 (mouseEvent B) (t0 + 600 * Millisecond), Up n4 (mouseEvent B)]) = Inr () \<and>
      DoubleClicked (snd (run (freshMouseState winp b0 tleft tright tmiddle)
        [Down n1 (mouseEvent A) t0, Up n2 (mouseEvent A),
         Down n3 (mouseEvent B) (t0 + 600 * Millisecond), Up n4 (mouseEvent B)])) A = Inr False \<and>
      DoubleClicked (snd (run (freshMouseState winp b0 tleft tright tmiddle)
        [Down n1 (mouseEvent A) t0, Up n2 (mouseEvent A),
         Down n3 (mouseEvent B) (t0 + 600 * Millisecond), Up n4 (mouseEvent B)])) B = Inr False)"
proof -
  let ?f = "freshMouseState winp b0 tleft tright tmiddle"
  have last: "lastButton (snd (onMouseDown ms evname (mouseEvent b) now)) = b"
    by (cases "states ms b") (simp_all add: onMouseDown_None onMouseDown_Some)
  have scen: "fst (run ?f
        [Down n1 (mouseEvent A) t0, Up n2 (mouseEvent A),
         Down n3 (mouseEvent B) (t0 + 600 * Millisecond), Up n4 (mouseEvent B)]) = Inr () \<and>
      DoubleClicked (snd (run ?f
        [Down n1 (mouseEvent A) t0, Up n2 (mouseEvent A),
         Down n3 (mouseEvent B) (t0 + 600 * Millisecond), Up n4 (mouseEvent B)])) A = Inr False \<and>
      DoubleClicked (snd (run ?f
        [Down n1 (mouseEvent A) t0, Up n2 (mouseEvent A),
         Down n3 (mouseEvent B) (t0 + 600 * Millisecond), Up n4 (mouseEvent B)])) B = Inr False"
    if "tracked A" and "tracked B"
  proof -
    from that obtain ta tb where
      sa: "states ?f A = Some \<lparr>clickCount = 0, lastClick = ta\<rparr>" and
      sb: "states ?f B = Some \<lparr>clickCount = 0, lastClick = tb\<rparr>"
      by (auto simp: tracked_def fresh_states)
    show ?thesis
    proof (cases "A = B")
      case True
      with sa show ?thesis
        by (simp add: run_simps2 onMouseDown_Some onMouseUp_Some fresh_fields Millisecond_def
            DoubleClicked_def doubleClicked_def del: step.simps run.simps(2))
    next
      case False
      with sa sb show ?thesis
        by (simp add: run_simps2 onMouseDown_Some onMouseUp_Some fresh_fields Millisecond_def
            DoubleClicked_def doubleClicked_def del: step.simps run.simps(2))
    qed
  qed
  from last scen show ?thesis by blast
qed

text \<open>
  The scenario with the left and the right button, and a down event for an untracked
  button.
\<close>

theorem lastButton_gates_cross_button_witness:
  "lastButton (snd (onMouseDown (leftAt 0 5) OnMouseDown (mouseEvent (MouseButtonOther 3)) 7))
     = MouseButtonOther 3 \<and>
   tracked MouseButtonLeft \<and> tracked MouseButtonRight \<and>
   DoubleClicked (snd (run (freshMouseState 0 MouseButtonLeft 0 0 0)
        [Down OnMouseDown (mouseEvent MouseButtonLeft) 1000,
         Up OnMouseUp (mouseEvent MouseButtonLeft),
         Down OnMouseDown (mouseEvent MouseButtonRight) (1000 + 600 * Millisecond),
         Up OnMouseUp (mouseEvent MouseButtonRight)])) MouseButtonLeft = Inr False \<and>
   DoubleClicked (snd (run (freshMouseState 0 MouseButtonLeft 0 0 0)
        [Down OnMouseDown (mouseEvent MouseButtonLeft) 1000,
         Up OnMouseUp (mouseEvent MouseButtonLeft),
         Down OnMouseDown (mouseEvent MouseButtonRight) (1000 + 600 * Millisecond),
         Up OnMouseUp (mouseEvent MouseButtonRight)])) MouseButtonRight = Inr False"
  using
    lastButton_gates_cross_button [of "leftAt 0 5" OnMouseDown "MouseButtonOther 3" 7
      MouseButtonLeft MouseButtonRight 0 MouseButtonLeft 0 0 0 OnMouseDown 1000 OnMouseUp
      OnMouseDown OnMouseUp]
  by (simp add: tracked_def)

subsection \<open>C10: what the handlers leave alone\<close>

text \<open>
  C10: a mouse event for the button \<open>a\<close> leaves the record of every other button \<open>b\<close>
  as it was, under both handlers. \<^verbatim>\<open>onMouseUp\<close> leaves \<^verbatim>\<open>lastButton\<close> and the last click
  of every button as they were. Neither handler changes \<^verbatim>\<open>DoubleClickDuration\<close>, the set
  of buttons that have a record, or the window, whatever the payload.
\<close>

theorem handlers_frame:
  "(a \<noteq> b \<longrightarrow>
      states (snd (onMouseDown ms evname (mouseEvent a) now)) b = states ms b \<and>
      states (snd (onMouseUp ms evname (mouseEvent a))) b = states ms b) \<and>
   lastButton (snd (onMouseUp ms evname ev)) = lastButton ms \<and>
   map_option lastClick (states (snd (onMouseUp ms evname ev)) b)
     = map_option lastClick (states ms b) \<and>
   DoubleClickDuration (snd (onMouseUp ms evname ev)) = DoubleClickDuration ms \<and>
   DoubleClickDuration (snd (onMouseDown ms evname ev now)) = DoubleClickDuration ms \<and>
   dom (states (snd (onMouseUp ms evname ev))) = dom (states ms) \<and>
   dom (states (snd (onMouseDown ms evname ev now))) = dom (states ms) \<and>
   win (snd (onMouseUp ms evname ev)) = win ms \<and>
   win (snd (onMouseDown ms evname ev now)) = win ms"
proof -
  have other: "states (snd (onMouseDown ms evname (mouseEvent a) now)) b = states ms b \<and>
      states (snd (onMouseUp ms evname (mouseEvent a))) b = states ms b" if "a \<noteq> b"
    using that
    by (cases "states ms a") (simp_all add: onMouseDown_None onMouseDown_Some onMouseUp_None onMouseUp_Some)
  have up: "lastButton (snd (onMouseUp ms evname ev)) = lastButton ms \<and>
      map_option lastClick (states (snd (onMouseUp ms evname ev)) b)
        = map_option lastClick (states ms b) \<and>
      DoubleClickDuration (snd (onMouseUp ms evname ev)) = DoubleClickDuration ms \<and>
      dom (states (snd (onMouseUp ms evname ev))) = dom (states ms) \<and>
      win (snd (onMouseUp ms evname ev)) = win ms"
  proof (cases ev rule: payload_cases)
    case (3 c)
    then show ?thesis
      by (cases "states ms c") (auto simp: onMouseUp_None onMouseUp_Some)
  qed simp_all
  have down: "DoubleClickDuration (snd (onMouseDown ms evname ev now)) = DoubleClickDuration ms \<and>
      dom (states (snd (onMouseDown ms evname ev now))) = dom (states ms) \<and>
      win (snd (onMouseDown ms evname ev now)) = win ms"
  proof (cases ev rule: payload_cases)
    case (3 c)
    then show ?thesis
      by (cases "states ms c") (auto simp: onMouseDown_None onMouseDown_Some)
  qed simp_all
  from other up down show ?thesis by blast
qed

text \<open>
  A down event for the left button on a fresh tracker and an up event for the pressed
  left button: the record of the right button stays.
\<close>

theorem handlers_frame_witness:
  "MouseButtonLeft \<noteq> MouseButtonRight \<and>
   states (snd (onMouseDown (freshMouseState 0 MouseButtonLeft 1 2 3) OnMouseDown
                  (mouseEvent MouseButtonLeft) 7)) MouseButtonRight
     = Some \<lparr>clickCount = 0, lastClick = 2\<rparr> \<and>
   states (snd (onMouseUp (leftAt 1 5) OnMouseUp (mouseEvent MouseButtonLeft))) MouseButtonRight
     = Some \<lparr>clickCount = 0, lastClick = 0\<rparr> \<and>
   lastButton (snd (onMouseUp (leftAt 1 5) OnMouseUp (mouseEvent MouseButtonLeft)))
     = MouseButtonLeft"
  using
    handlers_frame [of MouseButtonLeft MouseButtonRight "freshMouseState 0 MouseButtonLeft 1 2 3"
      OnMouseDown 7 "mouseEvent MouseButtonLeft"]
    handlers_frame [of MouseButtonLeft MouseButtonRight "leftAt 1 5"
      OnMouseUp 7 "mouseEvent MouseButtonLeft"]
  by (simp add: fresh_states fresh_fields leftAt_def)

end
